theory Spec2Isabelle
  imports Complex_Main
begin

section \<open>Numbers\<close>

text \<open>
  The monitored values are JavaScript numbers. In the trend analyser they are modelled as
  \<^typ>\<open>real\<close>: finite values with exact arithmetic (rounding of IEEE doubles is not
  modelled). Every division of the analyser is guarded in the source or has a divisor that
  is shown to be non-zero where a theorem uses it, so HOL's \<open>x / 0 = 0\<close> is never relied
  upon.
\<close>

section \<open>TrendAnalyzer\<close>

datatype trend = Up | Down | Stable

text \<open>\<^verbatim>\<open>values.slice(from)\<close> and \<^verbatim>\<open>values.slice(from, to)\<close> for indices
  \<open>0 \<le> from\<close>, \<open>0 \<le> to\<close> (the only way the analyser calls them).\<close>

definition slice_from :: "'a list \<Rightarrow> nat \<Rightarrow> 'a list" where
  "slice_from xs from = drop from xs"

definition slice :: "'a list \<Rightarrow> nat \<Rightarrow> nat \<Rightarrow> 'a list" where
  "slice xs from to = take (to - from) (drop from xs)"

text \<open>\<^verbatim>\<open>if (values.length === 0) return 0;
return values.reduce((sum, value) => sum + value, 0) / values.length;\<close>\<close>

definition calculateAverage :: "real list \<Rightarrow> real" where
  "calculateAverage values =
     (if length values = 0 then 0
      else foldl (\<lambda>sum value. sum + value) 0 values / real (length values))"

text \<open>\<^verbatim>\<open>calculateTrend\<close>: \<^verbatim>\<open>Math.floor(values.length / 2)\<close> is \<open>length values div 2\<close>;
  \<^verbatim>\<open>0.05\<close> is the rational \<open>5 / 100\<close>.\<close>

definition calculateTrend :: "real list \<Rightarrow> trend" where
  "calculateTrend values =
     (if length values < 2 then Stable
      else
        let firstHalf = slice values 0 (length values div 2);
            secondHalf = slice_from values (length values div 2);
            firstAvg = calculateAverage firstHalf;
            secondAvg = calculateAverage secondHalf;
            difference = secondAvg - firstAvg;
            threshold = firstAvg * (5 / 100)
        in if \<bar>difference\<bar> < threshold then Stable
           else if difference > 0 then Up else Down)"

subsection \<open>The trend rule in the words of the specification\<close>










subsection \<open>Least squares in the words of the specification\<close>


section \<open>System information: CPU and memory ratios\<close>













record cpu_usage =
  cpuNum :: nat
  cpu_sys :: string
  cpu_used :: string
  cpu_free :: string




section \<open>Monitoring data\<close>

text \<open>\<^verbatim>\<open>MonitoringDataPoint\<close>; the nested objects are records of their own, and fields that
  share a name in the source carry a prefix here. Usages are finite numbers.\<close>

record cpu_point =
  cpu_usage :: real
  cores :: nat

record memory_point =
  m_total :: real
  m_used :: real
  m_free :: real
  m_usage :: real

record disk_point =
  mounted :: string
  d_total :: real
  d_used :: real
  d_usage :: real

record system_point =
  uptime :: real
  loadAverage :: "real list"

record MonitoringDataPoint =
  timestamp :: int
  cpu :: cpu_point
  memory :: memory_point
  disk :: "disk_point list"
  system :: system_point

record thresholds_config =
  th_cpu :: real
  th_memory :: real
  th_disk :: real

record MonitoringConfig =
  interval :: int
  historySize :: int
  enableAlerts :: bool
  thresholds :: thresholds_config




section \<open>DynamicMonitor\<close>

text \<open>The texts of the threshold alerts and of the console lines are in Chinese in the
  source; each is represented by a constructor that keeps the values the text shows.\<close>

datatype threshold_alert = CpuHigh real | MemoryHigh real | DiskHigh string real

datatype monitor_event =
    EvStart
  | EvStop
  | EvData MonitoringDataPoint
  | EvError
  | EvAlert int "threshold_alert list" MonitoringDataPoint
  | EvConfigUpdated MonitoringConfig
  | EvHistoryCleared

datatype console_line = WarnAlreadyRunning | WarnNotRunning | LogStarted int | LogStopped

text \<open>
  The object's fields (\<open>config\<close>, \<open>history\<close>, \<open>intervalId\<close>, \<open>isRunning\<close>) and the part of
  its environment that it acts on: the interval timers currently active in the event loop
  (handle and period, in creation order), the next fresh handle, the events emitted so
  far, the console, and the number of \<^verbatim>\<open>collectData\<close> calls begun. Listeners are assumed
  not to call back into the monitor.
\<close>

record DynamicMonitor =
  config :: MonitoringConfig
  history :: "MonitoringDataPoint list"
  intervalId :: "nat option"
  isRunning :: bool
  timers :: "(nat \<times> int) list"
  nextTimer :: nat
  emitted :: "monitor_event list"
  console :: "console_line list"
  collectCalls :: nat


definition emit :: "monitor_event \<Rightarrow> DynamicMonitor \<Rightarrow> DynamicMonitor" where
  "emit e s = s\<lparr>emitted := emitted s @ [e]\<rparr>"

definition console_write :: "console_line \<Rightarrow> DynamicMonitor \<Rightarrow> DynamicMonitor" where
  "console_write l s = s\<lparr>console := console s @ [l]\<rparr>"

text \<open>\<^verbatim>\<open>this.intervalId = setInterval(..., this.config.interval)\<close>\<close>

definition setInterval :: "DynamicMonitor \<Rightarrow> DynamicMonitor" where
  "setInterval s =
     s\<lparr>intervalId := Some (nextTimer s),
       timers := timers s @ [(nextTimer s, interval (config s))],
       nextTimer := Suc (nextTimer s)\<rparr>"

definition clearInterval :: "nat \<Rightarrow> DynamicMonitor \<Rightarrow> DynamicMonitor" where
  "clearInterval t s = s\<lparr>timers := filter (\<lambda>(t', _). t' \<noteq> t) (timers s)\<rparr>"

text \<open>\<^verbatim>\<open>collectData\<close> is asynchronous: a call only begins a collection here; its completion
  is the separate step \<open>collected\<close> (or \<open>collect_failed\<close>) below.\<close>

definition begin_collectData :: "DynamicMonitor \<Rightarrow> DynamicMonitor" where
  "begin_collectData s = s\<lparr>collectCalls := Suc (collectCalls s)\<rparr>"

definition start :: "DynamicMonitor \<Rightarrow> DynamicMonitor" where
  "start s =
     (if isRunning s then console_write WarnAlreadyRunning s
      else
        let s = s\<lparr>isRunning := True\<rparr>;
            s = emit EvStart s;
            s = begin_collectData s;
            s = setInterval s
        in console_write (LogStarted (interval (config s))) s)"

definition stop :: "DynamicMonitor \<Rightarrow> DynamicMonitor" where
  "stop s =
     (if \<not> isRunning s then console_write WarnNotRunning s
      else
        let s = s\<lparr>isRunning := False\<rparr>;
            s = (case intervalId s of
                   Some t \<Rightarrow> (clearInterval t s)\<lparr>intervalId := None\<rparr>
                 | None \<Rightarrow> s);
            s = emit EvStop s
        in console_write LogStopped s)"

text \<open>\<^verbatim>\<open>addDataPoint\<close>: \<^verbatim>\<open>push\<close>, then one \<^verbatim>\<open>shift()\<close> when the length exceeds
  \<^verbatim>\<open>historySize\<close> (the array is not empty there, so \<^verbatim>\<open>shift\<close> removes its first element).\<close>

definition addDataPoint :: "MonitoringDataPoint \<Rightarrow> DynamicMonitor \<Rightarrow> DynamicMonitor" where
  "addDataPoint dataPoint s =
     (let h = history s @ [dataPoint]
      in s\<lparr>history := (if int (length h) > historySize (config s) then tl h else h)\<rparr>)"










text \<open>The timer discipline: a running monitor holds the handle of the one active timer,
  a stopped monitor holds none and no timer is active.\<close>

definition one_timer :: "DynamicMonitor \<Rightarrow> bool" where
  "one_timer s =
     (if isRunning s then map (\<lambda>(t, ms). Some t) (timers s) = [intervalId s]
      else intervalId s = None \<and> timers s = [])"



text \<open>A run of \<^verbatim>\<open>addDataPoint\<close> calls, in the order of the list.\<close>

definition push_all :: "MonitoringDataPoint list \<Rightarrow> DynamicMonitor \<Rightarrow> DynamicMonitor" where
  "push_all ps s = foldl (\<lambda>s p. addDataPoint p s) s ps"

text \<open>A data point for examples: only the time stamp and the CPU usage vary.\<close>

definition sample_point :: "int \<Rightarrow> real \<Rightarrow> MonitoringDataPoint" where
  "sample_point t u =
     \<lparr>timestamp = t, cpu = \<lparr>cpu_usage = u, cores = 4\<rparr>,
      memory = \<lparr>m_total = 16, m_used = 8, m_free = 8, m_usage = 50\<rparr>,
      disk = [], system = \<lparr>uptime = 0, loadAverage = []\<rparr>\<rparr>"

section \<open>AlertManager\<close>

datatype AlertLevel = INFO | WARNING | ERROR | CRITICAL

text \<open>A thrown JavaScript value, as its message.\<close>

type_synonym js_error = string

record Alert =
  a_id :: string
  a_level :: AlertLevel
  a_message :: string
  a_timestamp :: int
  resolved :: bool
  resolvedAt :: "int option"
  a_data :: MonitoringDataPoint

text \<open>\<^verbatim>\<open>AlertRule\<close>: \<open>condition\<close> and \<open>message\<close> are user callbacks, which return or throw.\<close>

record AlertRule =
  r_id :: string
  r_level :: AlertLevel
  condition :: "MonitoringDataPoint \<Rightarrow> js_error + bool"
  r_message :: "MonitoringDataPoint \<Rightarrow> js_error + string"

datatype alert_event = AlertRaised Alert | AlertResolved Alert

text \<open>The \<^verbatim>\<open>alerts\<close> map and the rule array. The events that one call emits are returned
  by the call; \<^verbatim>\<open>Date.now()\<close> is a parameter of each call.\<close>

record AlertManager =
  alerts :: "string \<rightharpoonup> Alert"
  rules :: "AlertRule list"

definition new_AlertManager :: AlertManager where
  "new_AlertManager = \<lparr>alerts = Map.empty, rules = []\<rparr>"

definition addRule :: "AlertRule \<Rightarrow> AlertManager \<Rightarrow> AlertManager" where
  "addRule rule m = m\<lparr>rules := rules m @ [rule]\<rparr>"

text \<open>A new manager after \<^verbatim>\<open>addRule\<close> for each rule of the list, in order.\<close>

definition manager_with :: "AlertRule list \<Rightarrow> AlertManager" where
  "manager_with rs = foldl (\<lambda>m rule. addRule rule m) new_AlertManager rs"

text \<open>The body of the \<^verbatim>\<open>forEach\<close> callback for one rule. A throw happens before any
  mutation of the callback, so it leaves the map as it was.\<close>

definition check_rule ::
  "AlertRule \<Rightarrow> int \<Rightarrow> MonitoringDataPoint \<Rightarrow> (string \<rightharpoonup> Alert)
     \<Rightarrow> js_error + ((string \<rightharpoonup> Alert) \<times> alert_event list)" where
  "check_rule rule now dataPoint al =
     (case condition rule dataPoint of
        Inl e \<Rightarrow> Inl e
      | Inr shouldAlert \<Rightarrow>
          let alertId = r_id rule in
          if shouldAlert then
            (if al alertId = None \<or> (case al alertId of Some a \<Rightarrow> resolved a | None \<Rightarrow> False)
             then (case r_message rule dataPoint of
                     Inl e \<Rightarrow> Inl e
                   | Inr msg \<Rightarrow>
                       let alert = \<lparr>a_id = alertId, a_level = r_level rule, a_message = msg,
                                    a_timestamp = now, resolved = False, resolvedAt = None,
                                    a_data = dataPoint\<rparr>
                       in Inr (al(alertId \<mapsto> alert), [AlertRaised alert]))
             else Inr (al, []))
          else
            (case al alertId of
               Some existingAlert \<Rightarrow>
                 if \<not> resolved existingAlert
                 then let existingAlert = existingAlert\<lparr>resolved := True, resolvedAt := Some now\<rparr>
                      in Inr (al(alertId \<mapsto> existingAlert), [AlertResolved existingAlert])
                 else Inr (al, [])
             | None \<Rightarrow> Inr (al, [])))"

text \<open>\<^verbatim>\<open>this.rules.forEach(...)\<close>: the rules in registration order; an error thrown by a
  callback ends the loop and leaves the function, with what earlier rules did kept.\<close>

fun forEach_rule ::
  "AlertRule list \<Rightarrow> int \<Rightarrow> MonitoringDataPoint \<Rightarrow> (string \<rightharpoonup> Alert)
     \<Rightarrow> js_error option \<times> (string \<rightharpoonup> Alert) \<times> alert_event list" where
  "forEach_rule [] now dataPoint al = (None, al, [])"
| "forEach_rule (rule # rest) now dataPoint al =
     (case check_rule rule now dataPoint al of
        Inl e \<Rightarrow> (Some e, al, [])
      | Inr (al', evs) \<Rightarrow>
          (case forEach_rule rest now dataPoint al' of
             (res, al'', evs') \<Rightarrow> (res, al'', evs @ evs')))"

text \<open>\<^verbatim>\<open>checkAlerts\<close>: \<open>Some e\<close> when the call throws \<open>e\<close> to its caller, the manager
  afterwards, and the events emitted.\<close>

definition checkAlerts ::
  "AlertManager \<Rightarrow> int \<Rightarrow> MonitoringDataPoint
     \<Rightarrow> js_error option \<times> AlertManager \<times> alert_event list" where
  "checkAlerts m now dataPoint =
     (case forEach_rule (rules m) now dataPoint (alerts m) of
        (res, al, evs) \<Rightarrow> (res, m\<lparr>alerts := al\<rparr>, evs))"


definition raised_count :: "string \<Rightarrow> alert_event list \<Rightarrow> nat" where
  "raised_count k evs =
     length (filter (\<lambda>e. case e of AlertRaised a \<Rightarrow> a_id a = k | AlertResolved a \<Rightarrow> False) evs)"

definition resolved_count :: "string \<Rightarrow> alert_event list \<Rightarrow> nat" where
  "resolved_count k evs =
     length (filter (\<lambda>e. case e of AlertResolved a \<Rightarrow> a_id a = k | AlertRaised a \<Rightarrow> False) evs)"




text \<open>A rule for examples, after the source's \<^verbatim>\<open>high-cpu\<close> rule (its message text is
  replaced), and one whose predicate throws.\<close>

definition high_cpu_rule :: AlertRule where
  "high_cpu_rule =
     \<lparr>r_id = ''high-cpu'', r_level = WARNING,
      condition = (\<lambda>d. Inr (cpu_usage (cpu d) > 80)),
      r_message = (\<lambda>d. Inr ''high cpu'')\<rparr>"

definition throwing_rule :: AlertRule where
  "throwing_rule =
     \<lparr>r_id = ''broken'', r_level = ERROR,
      condition = (\<lambda>d. Inl ''TypeError''),
      r_message = (\<lambda>d. Inr ''broken'')\<rparr>"


section \<open>Helper lemmas\<close>



section \<open>Claims about the trend analyser\<close>

text \<open>
  C10. For every window with fewer than two values (empty or singleton),
  \<open>calculateTrend\<close> returns \<open>stable\<close>; the function is total, so it does not fail.
\<close>

theorem calculateTrend_short_stable:
  "length values < 2 \<Longrightarrow> calculateTrend values = Stable"
  by (simp add: calculateTrend_def)

theorem calculateTrend_short_stable_witness:
  "length [42 :: real] < 2 \<and> calculateTrend [42] = Stable \<and> calculateTrend [] = Stable"
  using calculateTrend_short_stable [of "[42]"] calculateTrend_short_stable [of "[]"]
  by simp







section \<open>Claims about the CPU and memory ratios\<close>














section \<open>Claims about the history buffer and the scheduler\<close>

subsection \<open>History\<close>

lemma addDataPoint_config [simp]: "config (addDataPoint p s) = config s"
  by (simp add: addDataPoint_def Let_def)




lemma push_all_config [simp]: "config (push_all ps s) = config s"
  by (induction ps arbitrary: s) (simp_all add: push_all_def)









subsection \<open>Timers\<close>


lemma start_running: "isRunning s \<Longrightarrow> start s = console_write WarnAlreadyRunning s"
  by (simp add: start_def)

lemma stop_stopped: "\<not> isRunning s \<Longrightarrow> stop s = console_write WarnNotRunning s"
  by (simp add: stop_def)

lemma start_fields:
  assumes "\<not> isRunning s"
  shows "isRunning (start s)" and "intervalId (start s) = Some (nextTimer s)"
    and "timers (start s) = timers s @ [(nextTimer s, interval (config s))]"
    and "config (start s) = config s" and "history (start s) = history s"
  using assms
  by (simp_all add: start_def Let_def emit_def begin_collectData_def setInterval_def
      console_write_def)

lemma stop_fields:
  assumes "isRunning s"
  shows "\<not> isRunning (stop s)" and "intervalId (stop s) = None"
    and "timers (stop s) =
           (case intervalId s of Some t \<Rightarrow> filter (\<lambda>(t', _). t' \<noteq> t) (timers s)
            | None \<Rightarrow> timers s)"
    and "config (stop s) = config s" and "history (stop s) = history s"
  using assms
  by (simp_all add: stop_def Let_def emit_def clearInterval_def console_write_def
      split: option.splits)

lemma console_write_fields [simp]:
  "isRunning (console_write l s) = isRunning s"
  "intervalId (console_write l s) = intervalId s"
  "timers (console_write l s) = timers s"
  "config (console_write l s) = config s"
  "history (console_write l s) = history s"
  by (simp_all add: console_write_def)

lemma emit_fields [simp]:
  "isRunning (emit e s) = isRunning s"
  "intervalId (emit e s) = intervalId s"
  "timers (emit e s) = timers s"
  "config (emit e s) = config s"
  "history (emit e s) = history s"
  "emitted (emit e s) = emitted s @ [e]"
  by (simp_all add: emit_def)

lemma one_timer_console [simp]: "one_timer (console_write l s) = one_timer s"
  by (simp add: one_timer_def)

lemma one_timer_emit [simp]: "one_timer (emit e s) = one_timer s"
  by (simp add: one_timer_def)

lemma one_timer_config [simp]: "one_timer (s\<lparr>config := c\<rparr>) = one_timer s"
  by (simp add: one_timer_def)








lemma isRunning_start [simp]: "isRunning (start s)"
  by (cases "isRunning s") (simp_all add: start_running start_fields)

lemma isRunning_stop [simp]: "\<not> isRunning (stop s)"
  by (cases "isRunning s") (simp_all add: stop_stopped stop_fields)



subsection \<open>Configuration updates\<close>









section \<open>Claims about the alert manager\<close>

lemma manager_with_fields: "rules (manager_with rs) = rs \<and> alerts (manager_with rs) = Map.empty"
proof -
  have "\<And>m. rules (foldl (\<lambda>m rule. addRule rule m) m rs) = rules m @ rs
          \<and> alerts (foldl (\<lambda>m rule. addRule rule m) m rs) = alerts m"
    by (induction rs) (simp_all add: addRule_def)
  then show ?thesis by (simp add: manager_with_def new_AlertManager_def)
qed


lemma count_Nil [simp]: "raised_count k [] = 0" "resolved_count k [] = 0"
  by (simp_all add: raised_count_def resolved_count_def)











lemma forEach_rule_append:
  "forEach_rule (xs @ ys) now dp al =
     (case forEach_rule xs now dp al of
        (None, al', evs) \<Rightarrow>
          (case forEach_rule ys now dp al' of (res, al'', evs') \<Rightarrow> (res, al'', evs @ evs'))
      | (Some e, al', evs) \<Rightarrow> (Some e, al', evs))"
proof (induction xs arbitrary: al)
  case Nil
  then show ?case by (simp split: prod.splits)
next
  case (Cons x xs)
  show ?case
  proof (cases "check_rule x now dp al")
    case (Inl e)
    then show ?thesis by simp
  next
    case (Inr p)
    obtain al1 evs1 where p: "p = (al1, evs1)" by (cases p)
    show ?thesis using Inr p Cons.IH [of al1]
      by (simp split: prod.splits option.splits)
  qed
qed

text \<open>
  C5 (as amended). \<open>checkAlerts\<close> has no handler: when the predicate of a rule throws on
  the data point, the call throws the same error to its caller. The rules registered
  before that rule have been evaluated (their records and events stand), and the rules
  registered after it are not evaluated on that tick.
\<close>

theorem throwing_predicate_propagates:
  assumes "rules m = before @ rule # after"
      and "forEach_rule before now dataPoint (alerts m) = (None, al, evs)"
      and "condition rule dataPoint = Inl e"
  shows "checkAlerts m now dataPoint = (Some e, m\<lparr>alerts := al\<rparr>, evs)"
proof -
  have "check_rule rule now dataPoint al = Inl e"
    using assms(3) by (simp add: check_rule_def)
  then have "forEach_rule (rule # after) now dataPoint al = (Some e, al, [])"
    by simp
  then have "forEach_rule (before @ rule # after) now dataPoint (alerts m) = (Some e, al, evs)"
    using assms(2) by (simp add: forEach_rule_append)
  then show ?thesis using assms(1) by (simp add: checkAlerts_def)
qed

theorem throwing_predicate_propagates_witness:
  "rules (manager_with [high_cpu_rule, throwing_rule, high_cpu_rule])
     = [high_cpu_rule] @ throwing_rule # [high_cpu_rule]
   \<and> condition throwing_rule (sample_point 7 90) = Inl ''TypeError''
   \<and> fst (checkAlerts (manager_with [high_cpu_rule, throwing_rule, high_cpu_rule]) 7
           (sample_point 7 90)) = Some ''TypeError''
   \<and> raised_count ''high-cpu''
        (snd (snd (checkAlerts (manager_with [high_cpu_rule, throwing_rule, high_cpu_rule]) 7
                     (sample_point 7 90)))) = 1"
proof -
  let ?m = "manager_with [high_cpu_rule, throwing_rule, high_cpu_rule]"
  let ?a = "\<lparr>a_id = ''high-cpu'', a_level = WARNING, a_message = ''high cpu'',
             a_timestamp = 7, resolved = False, resolvedAt = None,
             a_data = sample_point 7 90\<rparr>"
  have r: "rules ?m = [high_cpu_rule] @ throwing_rule # [high_cpu_rule]"
    by (simp add: manager_with_fields)
  have f: "forEach_rule [high_cpu_rule] 7 (sample_point 7 90) (alerts ?m)
             = (None, [''high-cpu'' \<mapsto> ?a], [AlertRaised ?a])"
    by (simp add: manager_with_fields check_rule_def high_cpu_rule_def sample_point_def Let_def)
  have c: "condition throwing_rule (sample_point 7 90) = Inl ''TypeError''"
    by (simp add: throwing_rule_def)
  from throwing_predicate_propagates [OF r f c] r c show ?thesis
    by (simp add: raised_count_def)
qed

text \<open>
  The claim as worded fails: with a throwing rule registered first, the call throws
  \<open>TypeError\<close> to its caller and emits nothing, although the CPU usage of 90 is above
  the threshold of the rule registered after it.
\<close>

theorem throwing_predicate_counterexample:
  "fst (checkAlerts (manager_with [throwing_rule, high_cpu_rule]) 7 (sample_point 7 90))
     = Some ''TypeError''
   \<and> snd (snd (checkAlerts (manager_with [throwing_rule, high_cpu_rule]) 7 (sample_point 7 90)))
     = []"
  by (simp add: checkAlerts_def manager_with_fields check_rule_def throwing_rule_def)


section \<open>Claims about the forecast\<close>

subsection \<open>The prediction loop\<close>




subsection \<open>The four sums\<close>









subsection \<open>The divisor of the slope is positive\<close>





subsection \<open>The fitted line minimises the squared error\<close>





end
